theory Spec2Isabelle
  imports Complex_Main "HOL-Library.Product_Lexorder"
begin

section \<open>Python's datetime, as far as the program uses it\<close>

text \<open>
  A naive \<open>datetime\<close> is a record of its seven fields. Comparison is the lexicographic
  comparison of the fields, subtraction and addition go through the proleptic Gregorian
  ordinal of the date (day 1 is 0001-01-01), as in CPython. A \<open>timedelta\<close> is its exact
  length in microseconds.
\<close>

record datetime =
  year :: int
  month :: int
  day :: int
  hour :: int
  minute :: int
  second :: int
  microsecond :: int

type_synonym timedelta = int

definition is_leap :: "int \<Rightarrow> bool" where
  "is_leap y = (y mod 4 = 0 \<and> (y mod 100 \<noteq> 0 \<or> y mod 400 = 0))"

definition days_before_year :: "int \<Rightarrow> int" where
  "days_before_year y = (y - 1) * 365 + (y - 1) div 4 - (y - 1) div 100 + (y - 1) div 400"

definition DAYS_IN_MONTH :: "int list" where
  "DAYS_IN_MONTH = [-1, 31, 28, 31, 30, 31, 30, 31, 31, 30, 31, 30, 31]"

definition DAYS_BEFORE_MONTH :: "int list" where
  "DAYS_BEFORE_MONTH = [-1, 0, 31, 59, 90, 120, 151, 181, 212, 243, 273, 304, 334]"

definition days_before_month :: "int \<Rightarrow> int \<Rightarrow> int" where
  "days_before_month y m =
     DAYS_BEFORE_MONTH ! nat m + (if m > 2 \<and> is_leap y then 1 else 0)"

definition ymd2ord :: "int \<Rightarrow> int \<Rightarrow> int \<Rightarrow> int" where
  "ymd2ord y m d = days_before_year y + days_before_month y m + d"

definition ord2ymd :: "int \<Rightarrow> int \<times> int \<times> int" where
  "ord2ymd n0 =
     (let n = n0 - 1;
          n400 = n div 146097; n = n mod 146097;
          n100 = n div 36524; n = n mod 36524;
          n4 = n div 1461; n = n mod 1461;
          n1 = n div 365; n = n mod 365;
          y = n400 * 400 + 1 + n100 * 100 + n4 * 4 + n1
      in if n1 = 4 \<or> n100 = 4 then (y - 1, 12, 31)
         else
           let leapyear = (n1 = 3 \<and> (n4 \<noteq> 24 \<or> n100 = 3));
               m = (n + 50) div 32;
               preceding = DAYS_BEFORE_MONTH ! nat m + (if m > 2 \<and> leapyear then 1 else 0)
           in if preceding > n
              then let m' = m - 1;
                       preceding' = preceding
                         - (DAYS_IN_MONTH ! nat m' + (if m' = 2 \<and> leapyear then 1 else 0))
                   in (y, m', n - preceding' + 1)
              else (y, m, n - preceding + 1))"

definition MAXORDINAL :: int where
  "MAXORDINAL = 3652059"

definition US_PER_DAY :: int where
  "US_PER_DAY = 86400000000"

definition dt_to_us :: "datetime \<Rightarrow> int" where
  "dt_to_us d =
     ((ymd2ord (year d) (month d) (day d) * 24 + hour d) * 60 + minute d) * 60000000
       + second d * 1000000 + microsecond d"

text \<open>\<open>a - b\<close> on datetimes: the timedelta between them.\<close>

definition dt_sub :: "datetime \<Rightarrow> datetime \<Rightarrow> timedelta" where
  "dt_sub a b = dt_to_us a - dt_to_us b"

text \<open>\<open>d + td\<close>: raises OverflowError (here \<open>None\<close>) when the date leaves 0001..9999.\<close>

definition dt_add :: "datetime \<Rightarrow> timedelta \<Rightarrow> datetime option" where
  "dt_add d td =
     (let t = dt_to_us d + td;
          days = t div US_PER_DAY;
          r = t mod US_PER_DAY
      in if 0 < days \<and> days \<le> MAXORDINAL
         then (case ord2ymd days of (y, m, dd) \<Rightarrow>
                 Some \<lparr>year = y, month = m, day = dd,
                       hour = r div 3600000000, minute = r div 60000000 mod 60,
                       second = r div 1000000 mod 60, microsecond = r mod 1000000\<rparr>)
         else None)"

text \<open>The constructor \<open>datetime(y, m, d, h, mi)\<close>.\<close>

definition datetime_of :: "int \<Rightarrow> int \<Rightarrow> int \<Rightarrow> int \<Rightarrow> int \<Rightarrow> datetime" where
  "datetime_of y m d h mi =
     \<lparr>year = y, month = m, day = d, hour = h, minute = mi, second = 0, microsecond = 0\<rparr>"

definition dt_key :: "datetime \<Rightarrow> int \<times> int \<times> int \<times> int \<times> int \<times> int \<times> int" where
  "dt_key d = (year d, month d, day d, hour d, minute d, second d, microsecond d)"

definition dt_le :: "datetime \<Rightarrow> datetime \<Rightarrow> bool" where
  "dt_le a b = (dt_key a \<le> dt_key b)"

definition dt_lt :: "datetime \<Rightarrow> datetime \<Rightarrow> bool" where
  "dt_lt a b = (dt_key a < dt_key b)"

section \<open>Configuration (environment variables read at import time)\<close>

record config =
  LOT_NAME :: string
  LOT_CAPACITY :: int
  RATE_CENTS_PER_HOUR :: int
  RATE_CENTS_PER_HOUR_CAR :: int
  RATE_CENTS_PER_HOUR_MOTORCYCLE :: int
  RATE_CENTS_PER_HOUR_TRUCK :: int
  MIN_CHARGE_MINUTES :: int

definition default_config :: config where
  "default_config =
     \<lparr>LOT_NAME = ''RapidPark-A'', LOT_CAPACITY = 50, RATE_CENTS_PER_HOUR = 400,
      RATE_CENTS_PER_HOUR_CAR = 400, RATE_CENTS_PER_HOUR_MOTORCYCLE = 300,
      RATE_CENTS_PER_HOUR_TRUCK = 600, MIN_CHARGE_MINUTES = 60\<rparr>"

section \<open>The reservation table\<close>

record Reservation =
  id_pk :: "int option"
  customer_name :: string
  email :: "string option"
  phone :: "string option"
  vehicle_reg :: string
  vehicle_type :: "string option"
  lot_name :: string
  spot_number :: "int option"
  start_time :: datetime
  end_time :: datetime
  price_cents :: int
  confirmation_code :: string
  status :: string

text \<open>The store is the table's rows, in insertion order.\<close>

type_synonym store = "Reservation list"

section \<open>Spot allocation\<close>

definition overlaps :: "datetime \<Rightarrow> datetime \<Rightarrow> datetime \<Rightarrow> datetime \<Rightarrow> bool" where
  "overlaps a_start a_end b_start b_end = (\<not> (dt_le a_end b_start \<or> dt_le b_end a_start))"

text \<open>The rows the SELECT of \<open>_assign_spot\<close> returns: spot, start and end of every
  confirmed reservation of the lot that has a spot.\<close>

definition select_rows :: "store \<Rightarrow> string \<Rightarrow> (int \<times> datetime \<times> datetime) list" where
  "select_rows st lot =
     map (\<lambda>r. (the (spot_number r), start_time r, end_time r))
       (filter (\<lambda>r. lot_name r = lot \<and> status r = ''confirmed'' \<and> spot_number r \<noteq> None) st)"

text \<open>\<open>taken_by_spot.setdefault(spot, []).append((s, e))\<close> for every row.\<close>

definition setdefault_append ::
  "(int \<rightharpoonup> (datetime \<times> datetime) list) \<Rightarrow> int \<times> datetime \<times> datetime
     \<Rightarrow> (int \<rightharpoonup> (datetime \<times> datetime) list)" where
  "setdefault_append m row =
     (case row of (spot, s, e) \<Rightarrow>
        m(spot \<mapsto> (case m spot of None \<Rightarrow> [] | Some l \<Rightarrow> l) @ [(s, e)]))"

definition taken_by_spot ::
  "(int \<times> datetime \<times> datetime) list \<Rightarrow> (int \<rightharpoonup> (datetime \<times> datetime) list)" where
  "taken_by_spot rows = foldl setdefault_append Map.empty rows"

definition spot_ok ::
  "(int \<rightharpoonup> (datetime \<times> datetime) list) \<Rightarrow> datetime \<Rightarrow> datetime \<Rightarrow> int \<Rightarrow> bool" where
  "spot_ok taken start end spot =
     (let intervals = (case taken spot of None \<Rightarrow> [] | Some l \<Rightarrow> l)
      in list_all (\<lambda>(s, e). \<not> overlaps start end s e) intervals)"

definition assign_spot :: "config \<Rightarrow> store \<Rightarrow> string \<Rightarrow> datetime \<Rightarrow> datetime \<Rightarrow> int option" where
  "assign_spot cfg st lot start end =
     (let taken = taken_by_spot (select_rows st lot)
      in List.find (spot_ok taken start end) [1 .. LOT_CAPACITY cfg])"

text \<open>The specification's words: the confirmed (spot, start, end) triples of a lot, the
  half-open overlap test, and a spot none of whose recorded intervals conflicts.\<close>

definition confirmed_triples :: "store \<Rightarrow> string \<Rightarrow> (int \<times> datetime \<times> datetime) set" where
  "confirmed_triples st lot =
     {(k, start_time r, end_time r) | k r.
        r \<in> set st \<and> lot_name r = lot \<and> status r = ''confirmed'' \<and> spot_number r = Some k}"

definition half_open_overlap :: "datetime \<Rightarrow> datetime \<Rightarrow> datetime \<Rightarrow> datetime \<Rightarrow> bool" where
  "half_open_overlap start_a end_a start_b end_b = (dt_lt start_a end_b \<and> dt_lt start_b end_a)"

definition spot_free ::
  "(int \<times> datetime \<times> datetime) set \<Rightarrow> datetime \<Rightarrow> datetime \<Rightarrow> int \<Rightarrow> bool" where
  "spot_free triples start end k =
     (\<forall>(k', s, e) \<in> triples. k' = k \<longrightarrow> \<not> half_open_overlap start end s e)"

text \<open>A row of the table with the columns the allocator reads.\<close>

definition booking :: "string \<Rightarrow> int \<Rightarrow> datetime \<Rightarrow> datetime \<Rightarrow> Reservation" where
  "booking lot k s e =
     \<lparr>id_pk = None, customer_name = ''Ann'', email = None, phone = None,
      vehicle_reg = ''ABC-1234'', vehicle_type = None, lot_name = lot, spot_number = Some k,
      start_time = s, end_time = e, price_cents = 800, confirmation_code = ''RP-ABC-1234-01011000'',
      status = ''confirmed''\<rparr>"

section \<open>Python strings (ASCII)\<close>

text \<open>Strings are lists of ASCII characters. \<open>str.isspace\<close> on ASCII: tab, line feed,
  vertical tab, form feed, carriage return, the four separators 0x1c..0x1f and the space.\<close>

definition is_space :: "char \<Rightarrow> bool" where
  "is_space c = (of_char c \<in> {9, 10, 11, 12, 13, 28, 29, 30, 31, 32 :: nat})"

definition strip :: "string \<Rightarrow> string" where
  "strip s = rev (dropWhile is_space (rev (dropWhile is_space s)))"

definition lower_char :: "char \<Rightarrow> char" where
  "lower_char c = (let n = of_char c :: nat in if 65 \<le> n \<and> n \<le> 90 then char_of (n + 32) else c)"

definition upper_char :: "char \<Rightarrow> char" where
  "upper_char c = (let n = of_char c :: nat in if 97 \<le> n \<and> n \<le> 122 then char_of (n - 32) else c)"

definition lower :: "string \<Rightarrow> string" where
  "lower s = map lower_char s"

definition upper :: "string \<Rightarrow> string" where
  "upper s = map upper_char s"

text \<open>\<open>s.replace(old, new)\<close>: leftmost non-overlapping occurrences, from left to right.\<close>

function replace_ne :: "string \<Rightarrow> string \<Rightarrow> string \<Rightarrow> string" where
  "replace_ne old new [] = []"
| "replace_ne old new (c # cs) =
     (if old \<noteq> [] \<and> take (length old) (c # cs) = old
      then new @ replace_ne old new (drop (length old) (c # cs))
      else c # replace_ne old new cs)"
  by pat_completeness auto
termination
  by (relation "measure (\<lambda>(old, new, s). length s)") auto

definition replace :: "string \<Rightarrow> string \<Rightarrow> string \<Rightarrow> string" where
  "replace old new s =
     (if old = [] then new @ concat (map (\<lambda>c. c # new) s) else replace_ne old new s)"

text \<open>\<open>sub in s\<close> for strings.\<close>

fun contains :: "string \<Rightarrow> string \<Rightarrow> bool" where
  "contains sub [] = (sub = [])"
| "contains sub (c # cs) = (take (length sub) (c # cs) = sub \<or> contains sub cs)"

text \<open>Decimal numerals, and the zero padding of \<open>%02d\<close> and \<open>%04d\<close>.\<close>

definition digit_char :: "nat \<Rightarrow> char" where
  "digit_char n = char_of (48 + n)"

fun dec :: "nat \<Rightarrow> string" where
  "dec n = (if n < 10 then [digit_char n] else dec (n div 10) @ [digit_char (n mod 10)])"

definition zfill :: "nat \<Rightarrow> string \<Rightarrow> string" where
  "zfill w s = replicate (w - length s) (CHR ''0'') @ s"

definition pad2 :: "int \<Rightarrow> string" where
  "pad2 i = zfill 2 (dec (nat i))"

definition pad4 :: "int \<Rightarrow> string" where
  "pad4 i = zfill 4 (dec (nat i))"

section \<open>Formatting a datetime\<close>

text \<open>The fields a datetime can hold (the constructor raises ValueError otherwise).\<close>

definition days_in_month :: "int \<Rightarrow> int \<Rightarrow> int" where
  "days_in_month y m = (if m = 2 \<and> is_leap y then 29 else DAYS_IN_MONTH ! nat m)"

definition valid_datetime :: "datetime \<Rightarrow> bool" where
  "valid_datetime d =
     (1 \<le> year d \<and> year d \<le> 9999 \<and> 1 \<le> month d \<and> month d \<le> 12
      \<and> 1 \<le> day d \<and> day d \<le> days_in_month (year d) (month d)
      \<and> 0 \<le> hour d \<and> hour d \<le> 23 \<and> 0 \<le> minute d \<and> minute d \<le> 59
      \<and> 0 \<le> second d \<and> second d \<le> 59 \<and> 0 \<le> microsecond d \<and> microsecond d \<le> 999999)"

text \<open>The directives of \<open>strftime\<close> that the program uses; any other character, and an
  unknown directive, is copied.\<close>

definition directive :: "char \<Rightarrow> datetime \<Rightarrow> string" where
  "directive c d =
     (if c = CHR ''Y'' then pad4 (year d)
      else if c = CHR ''m'' then pad2 (month d)
      else if c = CHR ''d'' then pad2 (day d)
      else if c = CHR ''H'' then pad2 (hour d)
      else if c = CHR ''M'' then pad2 (minute d)
      else if c = CHR ''S'' then pad2 (second d)
      else [CHR ''%'', c])"

fun strftime :: "string \<Rightarrow> datetime \<Rightarrow> string" where
  "strftime [] d = []"
| "strftime [c] d = [c]"
| "strftime (c # c' # cs) d =
     (if c = CHR ''%'' then directive c' d @ strftime cs d else c # strftime (c' # cs) d)"


section \<open>Pricing\<close>

text \<open>Floats are modelled by the rationals: \<open>total_seconds()\<close> and the two divisions are
  exact here.\<close>

definition total_seconds :: "timedelta \<Rightarrow> rat" where
  "total_seconds td = of_int td / 1000000"

definition rate_for_vehicle_type :: "config \<Rightarrow> string option \<Rightarrow> int" where
  "rate_for_vehicle_type cfg vtype =
     (let vt = lower (strip (case vtype of None \<Rightarrow> [] | Some s \<Rightarrow> s))
      in if vt = ''car'' then RATE_CENTS_PER_HOUR_CAR cfg
         else if vt = ''motorcycle'' then RATE_CENTS_PER_HOUR_MOTORCYCLE cfg
         else if vt = ''truck'' then RATE_CENTS_PER_HOUR_TRUCK cfg
         else RATE_CENTS_PER_HOUR cfg)"

definition compute_price_cents :: "config \<Rightarrow> datetime \<Rightarrow> datetime \<Rightarrow> string option \<Rightarrow> int" where
  "compute_price_cents cfg start end vtype =
     (let total_minutes = max 0 \<lfloor>total_seconds (dt_sub end start) / 60\<rfloor>;
          billable_minutes = max total_minutes (MIN_CHARGE_MINUTES cfg);
          hours = \<lceil>(of_int billable_minutes :: rat) / 60\<rceil>;
          rate = rate_for_vehicle_type cfg vtype
      in hours * rate)"

section \<open>Confirmation codes\<close>

definition generate_code :: "string \<Rightarrow> datetime \<Rightarrow> string" where
  "generate_code vreg when =
     ''RP-'' @ upper (replace '' '' [] vreg) @ ''-'' @ strftime ''%m%d%H%M'' when"

text \<open>The specification's words: the vehicle id with spaces removed and uppercased, and
  the two decimal digits of a field.\<close>

definition normalized_vehicle_id :: "string \<Rightarrow> string" where
  "normalized_vehicle_id v = map upper_char (filter (\<lambda>c. c \<noteq> CHR '' '') v)"

definition two_digits :: "int \<Rightarrow> string" where
  "two_digits n = [digit_char (nat (n div 10)), digit_char (nat (n mod 10))]"

definition MMDDHHmm :: "datetime \<Rightarrow> string" where
  "MMDDHHmm d = two_digits (month d) @ two_digits (day d) @ two_digits (hour d) @ two_digits (minute d)"

section \<open>Errors and the environment\<close>

text \<open>\<open>HTTPException(status_code, detail)\<close>, and the OverflowError that datetime
  arithmetic raises (an internal server error for the caller).\<close>

datatype error = HTTPException int string | OverflowError

text \<open>What the functions read from outside: the clock (\<open>datetime.utcnow()\<close>) and the two
  parsers of dateutil, \<open>isoparse(s)\<close> and \<open>parse(text, default)\<close>, which return \<open>None\<close>
  where they raise. All datetimes are naive.\<close>

record env =
  utcnow :: datetime
  isoparse :: "string \<Rightarrow> datetime option"
  parse :: "string \<Rightarrow> datetime \<Rightarrow> datetime option"

text \<open>Python's \<open>round\<close> (half to even), and the constructors \<open>timedelta(hours=h)\<close> for a
  float and \<open>timedelta(minutes=m)\<close>, \<open>timedelta(days=d)\<close> for integers; a timedelta of more
  than 999999999 days raises OverflowError.\<close>

definition round_half_even :: "rat \<Rightarrow> int" where
  "round_half_even x =
     (let f = \<lfloor>x\<rfloor>; d = x - of_int f
      in if d < 1 / 2 then f else if 1 / 2 < d then f + 1 else if even f then f else f + 1)"

definition timedelta_us :: "int \<Rightarrow> timedelta option" where
  "timedelta_us us =
     (if - 999999999 \<le> us div US_PER_DAY \<and> us div US_PER_DAY \<le> 999999999 then Some us else None)"

definition timedelta_hours :: "rat \<Rightarrow> timedelta option" where
  "timedelta_hours h = timedelta_us (round_half_even (h * 3600000000))"

definition timedelta_minutes :: "int \<Rightarrow> timedelta option" where
  "timedelta_minutes m = timedelta_us (m * 60000000)"


text \<open>\<open>d + timedelta(...)\<close> with either OverflowError.\<close>

definition plus_timedelta :: "datetime \<Rightarrow> timedelta option \<Rightarrow> datetime option" where
  "plus_timedelta d td = (case td of None \<Rightarrow> None | Some t \<Rightarrow> dt_add d t)"

text \<open>Truthiness of an optional string: \<open>None\<close> and the empty string are false.\<close>

definition truthy :: "string option \<Rightarrow> string option" where
  "truthy s = (case s of None \<Rightarrow> None | Some t \<Rightarrow> if t = [] then None else Some t)"

section \<open>Spot labels\<close>

definition str_int :: "int \<Rightarrow> string" where
  "str_int i = (if i < 0 then CHR ''-'' # dec (nat (- i)) else dec (nat i))"

definition spot_label :: "string \<Rightarrow> int option \<Rightarrow> string option" where
  "spot_label lot spot =
     (case spot of None \<Rightarrow> None
      | Some n \<Rightarrow>
          if n = 0 then None
          else
            let zone0 = (if CHR ''-'' \<in> set lot
                         then let tail = strip (rev (takeWhile (\<lambda>c. c \<noteq> CHR ''-'') (rev lot)))
                              in if tail \<noteq> [] then Some (upper (take 1 tail)) else None
                         else None);
                zone = (if truthy zone0 = None \<and> lot \<noteq> [] then Some (upper (take 1 lot)) else zone0)
            in (case truthy zone of Some z \<Rightarrow> Some (z @ str_int n) | None \<Rightarrow> Some (str_int n)))"

section \<open>Email shape\<close>

text \<open>\<open>re.match(r"^[^\s@]+@[^\s@]+\.[^\s@]+$", s)\<close>: a run of characters that are neither
  whitespace nor @, one @, and a second such run with a dot that is neither its first nor
  its last character; \<open>$\<close> also matches before one final line feed.\<close>

definition email_char :: "char \<Rightarrow> bool" where
  "email_char c = (\<not> is_space c \<and> c \<noteq> CHR ''@'')"

definition email_match :: "string \<Rightarrow> bool" where
  "email_match s =
     (let m = (if s \<noteq> [] \<and> last s = char_of (10 :: nat) then butlast s else s);
          a = takeWhile email_char m
      in a \<noteq> [] \<and>
         (case dropWhile email_char m of
            [] \<Rightarrow> False
          | c # r \<Rightarrow> c = CHR ''@'' \<and> list_all email_char r \<and> CHR ''.'' \<in> set (butlast (tl r))))"

section \<open>Reservations\<close>

record ReservationCreate =
  rc_customer_name :: string
  rc_email :: "string option"
  rc_phone :: "string option"
  rc_vehicle_reg :: string
  rc_vehicle_type :: "string option"
  rc_start_time :: "datetime option"
  rc_end_time :: "datetime option"
  rc_duration_hours :: "rat option"

record ReservationOut =
  ro_id :: int
  ro_confirmation_code :: string
  ro_lot_name :: string
  ro_spot_number :: int
  ro_spot_label :: string
  ro_vehicle_type :: "string option"
  ro_start_time :: datetime
  ro_end_time :: datetime
  ro_price_cents :: int

definition known_vehicle_type :: "string \<Rightarrow> bool" where
  "known_vehicle_type vt = (lower vt \<in> {''car'', ''motorcycle'', ''truck''})"

text \<open>The primary key the database gives to a new row.\<close>

definition next_id :: "store \<Rightarrow> int" where
  "next_id st = 1 + foldr max (map (\<lambda>r. case id_pk r of None \<Rightarrow> 0 | Some i \<Rightarrow> i) st) 0"

text \<open>The statements of \<open>create_reservation\<close> before the session is opened: the checks
  of the request, which resolve the interval and read neither the table nor the
  configuration.\<close>

definition create_reservation_checks ::
  "env \<Rightarrow> ReservationCreate \<Rightarrow> error + datetime \<times> datetime" where
  "create_reservation_checks ev data =
     (if rc_vehicle_reg data = [] \<or> rc_customer_name data = []
      then Inl (HTTPException 400 ''customer_name and vehicle_reg are required'')
      else
        let start = (case rc_start_time data of Some s \<Rightarrow> s | None \<Rightarrow> utcnow ev)
        in if rc_end_time data = None \<and> rc_duration_hours data = None
           then Inl (HTTPException 400 ''Provide end_time or duration_hours'')
           else
             case (case rc_end_time data of
                     Some e \<Rightarrow> Some e
                   | None \<Rightarrow> plus_timedelta start
                       (timedelta_hours (case rc_duration_hours data of None \<Rightarrow> 0 | Some h \<Rightarrow> h)))
             of None \<Rightarrow> Inl OverflowError
              | Some end \<Rightarrow>
                 if dt_le end start
                 then Inl (HTTPException 400 ''end_time must be after start_time'')
                 else if (case truthy (rc_vehicle_type data) of
                            Some vt \<Rightarrow> \<not> known_vehicle_type vt | None \<Rightarrow> False)
                 then Inl (HTTPException 400
                         ''vehicle_type must be one of: car, motorcycle, truck'')
                 else if (case truthy (rc_email data) of
                            Some em \<Rightarrow> \<not> email_match em | None \<Rightarrow> False)
                 then Inl (HTTPException 400 ''invalid email format'')
                 else Inr (start, end))"

text \<open>\<open>create_reservation\<close> returns the response or the error, the task it schedules for
  the ticket email (if any), and the table afterwards.\<close>

definition create_reservation ::
  "config \<Rightarrow> env \<Rightarrow> store \<Rightarrow> ReservationCreate
     \<Rightarrow> (error + ReservationOut \<times> Reservation option) \<times> store" where
  "create_reservation cfg ev st data =
     (case create_reservation_checks ev data of
        Inl err \<Rightarrow> (Inl err, st)
      | Inr (start, end) \<Rightarrow>
          let price = compute_price_cents cfg start end (rc_vehicle_type data);
              code = generate_code (rc_vehicle_reg data) start
          in case assign_spot cfg st (LOT_NAME cfg) start end of
               None \<Rightarrow>
                 (Inl (HTTPException 409 ''No spots available for the requested time range''), st)
             | Some spot \<Rightarrow>
                 let res = \<lparr>id_pk = Some (next_id st),
                            customer_name = rc_customer_name data,
                            email = rc_email data, phone = rc_phone data,
                            vehicle_reg = rc_vehicle_reg data,
                            vehicle_type = truthy (rc_vehicle_type data),
                            lot_name = LOT_NAME cfg, spot_number = Some spot,
                            start_time = start, end_time = end,
                            price_cents = price, confirmation_code = code,
                            status = ''confirmed''\<rparr>;
                     out = \<lparr>ro_id = next_id st,
                            ro_confirmation_code = code,
                            ro_lot_name = LOT_NAME cfg,
                            ro_spot_number = spot,
                            ro_spot_label =
                              (case spot_label (LOT_NAME cfg) (Some spot) of
                                 Some l \<Rightarrow> l | None \<Rightarrow> []),
                            ro_vehicle_type = truthy (rc_vehicle_type data),
                            ro_start_time = start, ro_end_time = end,
                            ro_price_cents = price\<rparr>
                 in (Inr (out, if truthy (rc_email data) \<noteq> None then Some res else None),
                     st @ [res]))"

text \<open>The body of a reserve request as the specification describes it: the fields of
  \<open>ReservationCreate\<close> and \<open>duration_minutes\<close>. The model class has no such field, and the
  extra key of the body is ignored when the body is read into it.\<close>

record reserve_request = ReservationCreate +
  rr_duration_minutes :: "int option"


section \<open>Quotes\<close>

record QuoteIn =
  qi_vehicle_reg :: string
  qi_vehicle_type :: "string option"
  qi_start_time :: "string option"
  qi_end_time :: "string option"
  qi_duration_hours :: "rat option"
  qi_duration_minutes :: "int option"

record QuoteOut =
  qo_lot_name :: string
  qo_vehicle_reg :: string
  qo_vehicle_type :: "string option"
  qo_start_time :: datetime
  qo_end_time :: datetime
  qo_duration_minutes :: int
  qo_duration_hours :: rat
  qo_price_cents :: int
  qo_available :: bool
  qo_suggested_spot :: "int option"
  qo_suggested_label :: "string option"

text \<open>\<open>round(x, 2)\<close>.\<close>

definition round2 :: "rat \<Rightarrow> rat" where
  "round2 x = of_int (round_half_even (x * 100)) / 100"

text \<open>The statements of \<open>quote\<close> before the session is opened.\<close>

definition quote_checks :: "env \<Rightarrow> QuoteIn \<Rightarrow> error + datetime \<times> datetime" where
  "quote_checks ev data =
     (if qi_vehicle_reg data = [] then Inl (HTTPException 400 ''vehicle_reg is required'')
      else if (case truthy (qi_vehicle_type data) of
                 Some vt \<Rightarrow> \<not> known_vehicle_type vt | None \<Rightarrow> False)
      then Inl (HTTPException 400 ''vehicle_type must be one of: car, motorcycle, truck'')
      else
        let now = utcnow ev
        in case (case truthy (qi_start_time data) of
                   Some s \<Rightarrow> isoparse ev s | None \<Rightarrow> Some now)
           of None \<Rightarrow> Inl (HTTPException 400 ''start_time must be ISO-8601'')
            | Some start \<Rightarrow>
               (case (case truthy (qi_end_time data) of
                        Some s \<Rightarrow>
                          (case isoparse ev s of
                             None \<Rightarrow> Inl (HTTPException 400 ''end_time must be ISO-8601'')
                           | Some e \<Rightarrow> Inr e)
                      | None \<Rightarrow>
                          (case qi_duration_hours data of
                             Some h \<Rightarrow>
                               (case plus_timedelta start (timedelta_hours h) of
                                  None \<Rightarrow> Inl OverflowError | Some e \<Rightarrow> Inr e)
                           | None \<Rightarrow>
                               (case qi_duration_minutes data of
                                  Some m \<Rightarrow>
                                    (case plus_timedelta start (timedelta_minutes m) of
                                       None \<Rightarrow> Inl OverflowError | Some e \<Rightarrow> Inr e)
                                | None \<Rightarrow>
                                    Inl (HTTPException 400
                                      ''Provide end_time, duration_hours, or duration_minutes''))))
                of Inl err \<Rightarrow> Inl err
                 | Inr end \<Rightarrow>
                    if dt_le end start
                    then Inl (HTTPException 400 ''end_time must be after start_time'')
                    else Inr (start, end)))"

definition quote :: "config \<Rightarrow> env \<Rightarrow> store \<Rightarrow> QuoteIn \<Rightarrow> error + QuoteOut" where
  "quote cfg ev st data =
     (case quote_checks ev data of
        Inl err \<Rightarrow> Inl err
      | Inr (start, end) \<Rightarrow>
          let mins = \<lfloor>total_seconds (dt_sub end start) / 60\<rfloor>;
              price = compute_price_cents cfg start end (qi_vehicle_type data);
              spot = assign_spot cfg st (LOT_NAME cfg) start end
          in Inr \<lparr>qo_lot_name = LOT_NAME cfg,
                  qo_vehicle_reg = qi_vehicle_reg data,
                  qo_vehicle_type = truthy (qi_vehicle_type data),
                  qo_start_time = start, qo_end_time = end,
                  qo_duration_minutes = mins,
                  qo_duration_hours = round2 (of_int mins / 60),
                  qo_price_cents = price,
                  qo_available = (spot \<noteq> None),
                  qo_suggested_spot = spot,
                  qo_suggested_label = spot_label (LOT_NAME cfg) spot\<rparr>)"





text \<open>Example inputs: a clock with parsers that know no string, and requests.\<close>

definition example_env :: env where
  "example_env =
     \<lparr>utcnow = datetime_of 2024 1 1 9 0, isoparse = (\<lambda>s. None), parse = (\<lambda>s d. None)\<rparr>"

definition example_reserve :: "datetime option \<Rightarrow> rat option \<Rightarrow> int option \<Rightarrow> reserve_request" where
  "example_reserve e h m =
     \<lparr>rc_customer_name = ''Ann'', rc_email = None, rc_phone = None,
      rc_vehicle_reg = ''ABC-1234'', rc_vehicle_type = Some ''car'',
      rc_start_time = Some (datetime_of 2024 1 1 10 0), rc_end_time = e,
      rc_duration_hours = h, rr_duration_minutes = m\<rparr>"


section \<open>Arrival times\<close>





section \<open>The voice agent\<close>

datatype ConversationState =
  GREETING | COLLECT_NAME | COLLECT_VEHICLE | COLLECT_ARRIVAL | COLLECT_DURATION
  | COLLECT_EMAIL | PROVIDE_QUOTE | CONFIRM_RESERVATION | COMPLETED

record AgentContext =
  ctx_state :: ConversationState
  ctx_customer_name :: "string option"
  ctx_vehicle_reg :: "string option"
  ctx_vehicle_type :: "string option"
  ctx_arrival_time :: "string option"
  ctx_duration_hours :: "rat option"
  ctx_email :: "string option"
  ctx_quote :: "QuoteOut option"
  ctx_reservation :: "ReservationOut option"

text \<open>\<open>AgentContext()\<close>, the session \<open>get_session\<close> creates for a new call.\<close>

definition new_context :: AgentContext where
  "new_context =
     \<lparr>ctx_state = GREETING, ctx_customer_name = None, ctx_vehicle_reg = None,
      ctx_vehicle_type = None, ctx_arrival_time = None, ctx_duration_hours = None,
      ctx_email = None, ctx_quote = None, ctx_reservation = None\<rparr>"

record response =
  resp_message :: string
  resp_end_call :: bool

text \<open>The bodies the agent posts to \<open>/api/quote\<close> and \<open>/api/reservations\<close>.\<close>

record quote_payload =
  qp_vehicle_reg :: "string option"
  qp_vehicle_type :: "string option"
  qp_start_time :: "string option"
  qp_duration_hours :: "rat option"

record reservation_payload =
  rp_customer_name :: "string option"
  rp_email :: "string option"
  rp_vehicle_reg :: "string option"
  rp_vehicle_type :: "string option"
  rp_start_time :: "string option"
  rp_duration_hours :: "rat option"

datatype endpoint = Parse_arrival | Parse_duration | Quote | Parse_email | Reservations

text \<open>\<open>call_parking_api\<close> posts to the parking API over HTTP and raises on a failed
  request or an error status: each endpoint is a function that returns the text of the
  exception or the fields of the response that the agent reads, typed as the endpoint's
  response model. With them come the three formatting steps of the messages:
  \<open>datetime.fromisoformat(s).strftime("%B %d at %I:%M %p")\<close> (\<open>None\<close> where
  \<open>fromisoformat\<close> raises), the text of a float, and a float with two decimals.\<close>

record agent_env =
  post_parse_arrival :: "string \<Rightarrow> string + string"
  post_parse_duration :: "string \<Rightarrow> string option \<Rightarrow> string + rat"
  post_quote :: "quote_payload \<Rightarrow> string + QuoteOut"
  post_parse_email :: "string \<Rightarrow> string + string"
  post_reservation :: "reservation_payload \<Rightarrow> string + ReservationOut"
  format_arrival :: "string \<Rightarrow> string option"
  format_float :: "rat \<Rightarrow> string"
  format_cents :: "int \<Rightarrow> string"

text \<open>\<open>str(x)\<close> of an optional value inside an f-string.\<close>

definition str_opt :: "string option \<Rightarrow> string" where
  "str_opt s = (case s of None \<Rightarrow> ''None'' | Some t \<Rightarrow> t)"

definition str_float_opt :: "agent_env \<Rightarrow> rat option \<Rightarrow> string" where
  "str_float_opt ae x = (case x of None \<Rightarrow> ''None'' | Some h \<Rightarrow> format_float ae h)"

subsection \<open>The vehicle extractor\<close>

definition is_upper_letter :: "char \<Rightarrow> bool" where
  "is_upper_letter c = (65 \<le> (of_char c :: nat) \<and> (of_char c :: nat) \<le> 90)"

definition is_digit :: "char \<Rightarrow> bool" where
  "is_digit c = (48 \<le> (of_char c :: nat) \<and> (of_char c :: nat) \<le> 57)"

definition is_word :: "char \<Rightarrow> bool" where
  "is_word c =
     (is_upper_letter c \<or> is_digit c \<or> c = CHR ''_''
      \<or> (97 \<le> (of_char c :: nat) \<and> (of_char c :: nat) \<le> 122))"

text \<open>\<open>\b\<close> before a word character, and after one.\<close>

definition boundary_before :: "char option \<Rightarrow> bool" where
  "boundary_before prev = (case prev of None \<Rightarrow> True | Some p \<Rightarrow> \<not> is_word p)"

definition boundary_after :: "string \<Rightarrow> bool" where
  "boundary_after rest = (case rest of [] \<Rightarrow> True | c # cs \<Rightarrow> \<not> is_word c)"

text \<open>The two alternatives of the registration pattern, matched at the head of a text:
  \<open>[A-Z]{2}\d{2}[A-Z]{2}\d{4}\b\<close> and \<open>[A-Z]{3}-?\d{4}\b\<close>.\<close>

definition plate_long :: "string \<Rightarrow> string option" where
  "plate_long s =
     (let m = take 10 s
      in if length m = 10 \<and> list_all is_upper_letter (take 2 m)
            \<and> list_all is_digit (take 2 (drop 2 m))
            \<and> list_all is_upper_letter (take 2 (drop 4 m))
            \<and> list_all is_digit (drop 6 m) \<and> boundary_after (drop 10 s)
         then Some m else None)"

definition plate_short :: "string \<Rightarrow> string option" where
  "plate_short s =
     (let l = take 3 s; r = drop 3 s;
          dash = (if r \<noteq> [] \<and> hd r = CHR ''-'' then ''-'' else []);
          r' = drop (length dash) r;
          d = take 4 r'
      in if length l = 3 \<and> list_all is_upper_letter l \<and> length d = 4 \<and> list_all is_digit d
            \<and> boundary_after (drop 4 r')
         then Some (l @ dash @ d) else None)"

text \<open>\<open>re.search\<close>: the leftmost position where an alternative matches, the first
  alternative first.\<close>

fun search_plate :: "char option \<Rightarrow> string \<Rightarrow> string option" where
  "search_plate prev [] = None"
| "search_plate prev (c # cs) =
     (if boundary_before prev
      then (case plate_long (c # cs) of
              Some m \<Rightarrow> Some m
            | None \<Rightarrow>
                (case plate_short (c # cs) of
                   Some m \<Rightarrow> Some m
                 | None \<Rightarrow> search_plate (Some c) cs))
      else search_plate (Some c) cs)"

definition extract_vehicle_info :: "string \<Rightarrow> string option \<times> string option" where
  "extract_vehicle_info text =
     (let text_lower = lower text;
          vtype =
            (if contains ''motorcycle'' text_lower \<or> contains ''bike'' text_lower
                \<or> contains ''motorbike'' text_lower
             then Some ''motorcycle''
             else if contains ''truck'' text_lower \<or> contains ''van'' text_lower
             then Some ''truck''
             else if contains ''car'' text_lower \<or> contains ''sedan'' text_lower
                \<or> contains ''suv'' text_lower
             then Some ''car''
             else None)
      in (search_plate None (upper text), vtype))"

subsection \<open>The conversation\<close>

definition skip_words :: "string list" where
  "skip_words = [''skip'', ''no email'', ''no thanks'', ''none'']"

definition confirm_words :: "string list" where
  "confirm_words = [''yes'', ''confirm'', ''correct'', ''proceed'', ''book'']"

definition any_word_in :: "string list \<Rightarrow> string \<Rightarrow> bool" where
  "any_word_in ws s = list_ex (\<lambda>w. contains w s) ws"

definition cancelled_message :: string where
  "cancelled_message =
     ''No problem, I've cancelled this reservation. If you'd like to try again, please call back. Goodbye!''"

definition duration_retry_message :: string where
  "duration_retry_message =
     ''I couldn't understand the duration. Please say how long you need parking, like '2 hours' or '90 minutes'.''"

definition welcome_message :: string where
  "welcome_message =
     ''Hello! Welcome to RapidPark automated reservation system. I can help you reserve a parking spot. May I have your name please?''"

text \<open>\<open>handle_conversation\<close> returns the response, or the text of an exception it does not
  catch, together with the session afterwards and the endpoints it has called. The context
  it is given is the object stored in the session map, so every assignment to a field is
  an update of the session, also on the paths that never reach \<open>save_session\<close>.\<close>

definition collect_name :: "string \<Rightarrow> AgentContext \<Rightarrow> (string + response) \<times> AgentContext" where
  "collect_name user_message ctx =
     (if user_message \<noteq> [] \<and> length (strip user_message) > 2
      then
        let ctx1 = ctx\<lparr>ctx_customer_name := Some (strip user_message),
                       ctx_state := COLLECT_VEHICLE\<rparr>
        in (Inr \<lparr>resp_message = ''Thank you, '' @ strip user_message
                    @ ''. Please tell me your vehicle registration number and type. For example, you can say 'KA01AB1234, car' or 'ABC-1234, motorcycle'.'',
                  resp_end_call = False\<rparr>, ctx1)
      else (Inr \<lparr>resp_message = ''I didn't catch that. Could you please tell me your full name?'',
                  resp_end_call = False\<rparr>, ctx))"

definition collect_vehicle :: "string \<Rightarrow> AgentContext \<Rightarrow> (string + response) \<times> AgentContext" where
  "collect_vehicle user_message ctx =
     (case extract_vehicle_info user_message of
        (Some reg, vtype) \<Rightarrow>
          let vt = (case truthy vtype of Some t \<Rightarrow> t | None \<Rightarrow> ''car'');
              ctx1 = ctx\<lparr>ctx_vehicle_reg := Some reg, ctx_vehicle_type := Some vt,
                         ctx_state := COLLECT_ARRIVAL\<rparr>
          in (Inr \<lparr>resp_message = ''Got it, '' @ vt @ '' with registration '' @ reg
                      @ ''. When do you plan to arrive? You can say something like 'today at 3 PM' or 'tomorrow at 10 AM'.'',
                    resp_end_call = False\<rparr>, ctx1)
      | (None, vtype) \<Rightarrow>
          (Inr \<lparr>resp_message = ''I couldn't understand the vehicle registration. Please say your vehicle registration number clearly, like 'KA 01 AB 1234'.'',
                resp_end_call = False\<rparr>, ctx))"

definition collect_arrival ::
  "agent_env \<Rightarrow> string \<Rightarrow> AgentContext \<Rightarrow> (string + response) \<times> AgentContext" where
  "collect_arrival ae user_message ctx =
     (let retry = \<lparr>resp_message = ''I couldn't understand that time. Please try again, like 'today at 3 PM' or 'tomorrow at 10 AM'.'',
                   resp_end_call = False\<rparr>
      in case post_parse_arrival ae user_message of
           Inl ex \<Rightarrow> (Inr retry, ctx)
         | Inr start \<Rightarrow>
             let ctx1 = ctx\<lparr>ctx_arrival_time := Some start, ctx_state := COLLECT_DURATION\<rparr>
             in case (if start \<noteq> [] then format_arrival ae start
                      else Some ''the requested time'')
                of None \<Rightarrow> (Inr retry, ctx1)
                 | Some formatted_time \<Rightarrow>
                     (Inr \<lparr>resp_message = ''Perfect, arriving on '' @ formatted_time
                             @ ''. How long do you need the parking spot? For example, '2 hours' or '3 hours 30 minutes'.'',
                           resp_end_call = False\<rparr>, ctx1))"

definition collect_duration ::
  "agent_env \<Rightarrow> string \<Rightarrow> AgentContext \<Rightarrow> (string + response) \<times> AgentContext" where
  "collect_duration ae user_message ctx =
     (let retry = \<lparr>resp_message = duration_retry_message, resp_end_call = False\<rparr>
      in case post_parse_duration ae user_message (ctx_arrival_time ctx) of
           Inl ex \<Rightarrow> (Inr retry, ctx)
         | Inr hours \<Rightarrow>
             let ctx1 = ctx\<lparr>ctx_duration_hours := Some hours\<rparr>
             in case post_quote ae
                       \<lparr>qp_vehicle_reg = ctx_vehicle_reg ctx1,
                        qp_vehicle_type = ctx_vehicle_type ctx1,
                        qp_start_time = ctx_arrival_time ctx1,
                        qp_duration_hours = ctx_duration_hours ctx1\<rparr>
                of Inl ex \<Rightarrow> (Inr retry, ctx1)
                 | Inr q \<Rightarrow>
                     let ctx2 = ctx1\<lparr>ctx_quote := Some q, ctx_state := COLLECT_EMAIL\<rparr>
                     in (Inr \<lparr>resp_message =
                                ''Great! For '' @ format_float ae hours
                                @ '' hours of parking, the price will be $''
                                @ format_cents ae (qo_price_cents q)
                                @ ''. We have spot '' @ str_opt (qo_suggested_label q)
                                @ '' in '' @ qo_lot_name q
                                @ ''. Would you like to provide an email address for your confirmation ticket? You can say your email or say 'skip'.'',
                              resp_end_call = False\<rparr>, ctx2))"

definition confirm_summary :: "agent_env \<Rightarrow> AgentContext \<Rightarrow> (string + response) \<times> AgentContext" where
  "confirm_summary ae ctx =
     (case ctx_quote ctx of
        None \<Rightarrow>
          (Inr \<lparr>resp_message = ''I'm sorry, there was an error getting your quote. Let's start over.'',
                resp_end_call = True\<rparr>, ctx)
      | Some q \<Rightarrow>
          (case (case truthy (ctx_arrival_time ctx) of
                   Some s \<Rightarrow> format_arrival ae s | None \<Rightarrow> Some ''the requested time'')
           of None \<Rightarrow> (Inl ''ValueError'', ctx)
            | Some arrival_str \<Rightarrow>
                (Inr \<lparr>resp_message =
                        ''Let me confirm your reservation. ''
                        @ ''Name: '' @ str_opt (ctx_customer_name ctx) @ ''. ''
                        @ ''Vehicle: '' @ str_opt (ctx_vehicle_type ctx) @ '', registration ''
                        @ str_opt (ctx_vehicle_reg ctx) @ ''. ''
                        @ ''Arriving: '' @ arrival_str @ ''. ''
                        @ ''Duration: '' @ str_float_opt ae (ctx_duration_hours ctx) @ '' hours. ''
                        @ ''Price: $'' @ format_cents ae (qo_price_cents q) @ ''. ''
                        @ (case truthy (ctx_email ctx) of
                             Some em \<Rightarrow> ''Email: '' @ em @ ''. '' | None \<Rightarrow> [])
                        @ ''Should I confirm this reservation? Say 'yes' to confirm or 'no' to cancel.'',
                      resp_end_call = False\<rparr>, ctx)))"

definition collect_email ::
  "agent_env \<Rightarrow> string \<Rightarrow> AgentContext
     \<Rightarrow> (string + response) \<times> AgentContext \<times> endpoint list" where
  "collect_email ae user_message ctx =
     (if any_word_in skip_words (lower user_message)
      then (case confirm_summary ae (ctx\<lparr>ctx_email := None, ctx_state := CONFIRM_RESERVATION\<rparr>)
            of (out, ctx1) \<Rightarrow> (out, ctx1, []))
      else
        case post_parse_email ae user_message of
          Inl ex \<Rightarrow>
            (Inr \<lparr>resp_message = ''I couldn't understand that email. Please say it clearly, like 'john dot doe at gmail dot com', or say 'skip'.'',
                  resp_end_call = False\<rparr>, ctx, [Parse_email])
        | Inr em \<Rightarrow>
            (case confirm_summary ae (ctx\<lparr>ctx_email := Some em, ctx_state := CONFIRM_RESERVATION\<rparr>)
             of (out, ctx1) \<Rightarrow> (out, ctx1, [Parse_email])))"

definition confirm_reservation ::
  "agent_env \<Rightarrow> string \<Rightarrow> AgentContext
     \<Rightarrow> (string + response) \<times> AgentContext \<times> endpoint list" where
  "confirm_reservation ae user_message ctx =
     (if any_word_in confirm_words (lower user_message)
      then
        (case post_reservation ae
                \<lparr>rp_customer_name = ctx_customer_name ctx, rp_email = ctx_email ctx,
                 rp_vehicle_reg = ctx_vehicle_reg ctx, rp_vehicle_type = ctx_vehicle_type ctx,
                 rp_start_time = ctx_arrival_time ctx,
                 rp_duration_hours = ctx_duration_hours ctx\<rparr>
         of Inl ex \<Rightarrow>
              (Inr \<lparr>resp_message = ''I'm sorry, there was an error creating your reservation: ''
                        @ ex @ ''. Please try again later or call our customer service.'',
                    resp_end_call = True\<rparr>, ctx, [Reservations])
          | Inr reservation \<Rightarrow>
              (Inr \<lparr>resp_message =
                      ''Perfect! Your reservation is confirmed. ''
                      @ ''Your confirmation code is '' @ ro_confirmation_code reservation @ ''. ''
                      @ ''Your spot is '' @ ro_spot_label reservation @ '' in ''
                      @ ro_lot_name reservation @ ''. ''
                      @ (case truthy (ctx_email ctx) of
                           Some em \<Rightarrow> ''A confirmation email has been sent to '' @ em @ ''. ''
                         | None \<Rightarrow> [])
                      @ ''Thank you for choosing RapidPark. Have a great day!'',
                    resp_end_call = True\<rparr>,
               ctx\<lparr>ctx_reservation := Some reservation, ctx_state := COMPLETED\<rparr>,
               [Reservations]))
      else
        (Inr \<lparr>resp_message = cancelled_message, resp_end_call = True\<rparr>,
         ctx\<lparr>ctx_state := COMPLETED\<rparr>, []))"

definition handle_conversation ::
  "agent_env \<Rightarrow> string \<Rightarrow> AgentContext
     \<Rightarrow> (string + response) \<times> AgentContext \<times> endpoint list" where
  "handle_conversation ae user_message ctx =
     (case ctx_state ctx of
        GREETING \<Rightarrow>
          (Inr \<lparr>resp_message = welcome_message, resp_end_call = False\<rparr>,
           ctx\<lparr>ctx_state := COLLECT_NAME\<rparr>, [])
      | COLLECT_NAME \<Rightarrow>
          (case collect_name user_message ctx of (out, ctx1) \<Rightarrow> (out, ctx1, []))
      | COLLECT_VEHICLE \<Rightarrow>
          (case collect_vehicle user_message ctx of (out, ctx1) \<Rightarrow> (out, ctx1, []))
      | COLLECT_ARRIVAL \<Rightarrow>
          (case collect_arrival ae user_message ctx of (out, ctx1) \<Rightarrow> (out, ctx1, [Parse_arrival]))
      | COLLECT_DURATION \<Rightarrow>
          (case collect_duration ae user_message ctx of
             (out, ctx1) \<Rightarrow>
               (out, ctx1,
                case post_parse_duration ae user_message (ctx_arrival_time ctx) of
                  Inl ex \<Rightarrow> [Parse_duration] | Inr h \<Rightarrow> [Parse_duration, Quote]))
      | COLLECT_EMAIL \<Rightarrow> collect_email ae user_message ctx
      | CONFIRM_RESERVATION \<Rightarrow> confirm_reservation ae user_message ctx
      | _ \<Rightarrow>
          (Inr \<lparr>resp_message = ''I'm sorry, I didn't understand that. Could you please repeat?'',
                resp_end_call = False\<rparr>, ctx, []))"

text \<open>The sessions a call can be in: a new one, and every one a turn of the conversation
  makes of a reachable one, whatever the utterance and whatever the API answers.\<close>

inductive reachable :: "AgentContext \<Rightarrow> bool" where
  reachable_new: "reachable new_context"
| reachable_turn:
    "reachable ctx \<Longrightarrow> handle_conversation ae user_message ctx = (out, ctx', calls)
       \<Longrightarrow> reachable ctx'"

text \<open>An affirmative utterance, as the agent reads it: one of its five words of consent
  occurs in the lower-cased utterance.\<close>

definition affirmative :: "string \<Rightarrow> bool" where
  "affirmative user_message =
     (\<exists>w \<in> {''yes'', ''confirm'', ''correct'', ''proceed'', ''book''}.
        contains w (lower user_message))"

section \<open>Facts about the allocator\<close>

lemma overlaps_half_open: "overlaps a b c d = half_open_overlap a b c d"
  by (auto simp: overlaps_def half_open_overlap_def dt_le_def dt_lt_def not_le)

lemma set_select_rows: "set (select_rows st lot) = confirmed_triples st lot"
  by (force simp: select_rows_def confirmed_triples_def)

lemma taken_by_spot_foldl:
  "(case foldl setdefault_append m rows k of None \<Rightarrow> [] | Some l \<Rightarrow> l) =
     (case m k of None \<Rightarrow> [] | Some l \<Rightarrow> l) @ map snd (filter (\<lambda>row. fst row = k) rows)"
  by (induction rows arbitrary: m) (auto simp: setdefault_append_def split: option.splits)

lemma taken_by_spot_intervals:
  "(case taken_by_spot rows k of None \<Rightarrow> [] | Some l \<Rightarrow> l) =
     map snd (filter (\<lambda>row. fst row = k) rows)"
  unfolding taken_by_spot_def by (simp add: taken_by_spot_foldl)

lemma spot_ok_iff_free:
  "spot_ok (taken_by_spot rows) start end k = spot_free (set rows) start end k"
  unfolding spot_ok_def Let_def taken_by_spot_intervals
  by (auto simp: spot_free_def list_all_iff overlaps_half_open)

lemma find_upto_Some:
  "List.find P [1 .. n] = Some k \<longleftrightarrow>
     1 \<le> k \<and> k \<le> n \<and> P k \<and> (\<forall>j. 1 \<le> j \<and> j < k \<longrightarrow> \<not> P j)"
proof
  assume "List.find P [1 .. n] = Some k"
  then obtain i where i: "i < length [1 .. n]" "P ([1 .. n] ! i)" "k = [1 .. n] ! i"
    "\<forall>j<i. \<not> P ([1 .. n] ! j)"
    by (auto simp: find_Some_iff)
  from i(1,3) have k: "k = 1 + int i" "k \<le> n" by auto
  have "\<not> P j" if "1 \<le> j" "j < k" for j
  proof -
    from that k have "nat (j - 1) < i" by auto
    with i(4) have "\<not> P ([1 .. n] ! nat (j - 1))" by blast
    moreover from that k i(1) have "[1 .. n] ! nat (j - 1) = j" by auto
    ultimately show ?thesis by simp
  qed
  with i k show "1 \<le> k \<and> k \<le> n \<and> P k \<and> (\<forall>j. 1 \<le> j \<and> j < k \<longrightarrow> \<not> P j)" by auto
next
  assume a: "1 \<le> k \<and> k \<le> n \<and> P k \<and> (\<forall>j. 1 \<le> j \<and> j < k \<longrightarrow> \<not> P j)"
  then have "nat (k - 1) < length [1 .. n]" "[1 .. n] ! nat (k - 1) = k" by auto
  moreover have "\<forall>j < nat (k - 1). \<not> P ([1 .. n] ! j)"
  proof (intro allI impI)
    fix j assume "j < nat (k - 1)"
    with a have "[1 .. n] ! j = 1 + int j" "1 + int j < k" by auto
    with a show "\<not> P ([1 .. n] ! j)" by auto
  qed
  ultimately show "List.find P [1 .. n] = Some k"
    using a unfolding find_Some_iff by (intro exI[of _ "nat (k - 1)"]) auto
qed

lemma find_upto_None: "List.find P [1 .. n] = None \<longleftrightarrow> (\<forall>k. 1 \<le> k \<and> k \<le> n \<longrightarrow> \<not> P k)"
  by (auto simp: find_None_iff)

text \<open>
  C1. The allocator returns the smallest spot number in 1..capacity none of whose recorded
  intervals overlaps the candidate in the half-open sense (start_a < end_b and
  start_b < end_a), and returns none exactly when every spot in 1..capacity has a
  conflicting interval. An interval that only touches the candidate at a boundary does not
  conflict, a spot without recorded intervals is free, and the result depends only on the
  set of confirmed triples and the candidate interval.
\<close>

theorem assign_spot_first_fit:
  "(assign_spot cfg st lot start end = Some k \<longleftrightarrow>
      1 \<le> k \<and> k \<le> LOT_CAPACITY cfg
      \<and> spot_free (confirmed_triples st lot) start end k
      \<and> (\<forall>j. 1 \<le> j \<and> j < k \<longrightarrow> \<not> spot_free (confirmed_triples st lot) start end j))
   \<and> (assign_spot cfg st lot start end = None \<longleftrightarrow>
      (\<forall>j. 1 \<le> j \<and> j \<le> LOT_CAPACITY cfg
         \<longrightarrow> \<not> spot_free (confirmed_triples st lot) start end j))
   \<and> (confirmed_triples st' lot = confirmed_triples st lot \<longrightarrow>
        assign_spot cfg st' lot start end = assign_spot cfg st lot start end)
   \<and> \<not> half_open_overlap start end end e'
   \<and> \<not> half_open_overlap start end s' start
   \<and> ((\<forall>s e. (k, s, e) \<notin> confirmed_triples st lot)
        \<longrightarrow> spot_free (confirmed_triples st lot) start end k)"
proof -
  have ok: "spot_ok (taken_by_spot (select_rows s lot)) start end =
            spot_free (confirmed_triples s lot) start end" for s
    by (rule ext) (simp add: spot_ok_iff_free set_select_rows)
  have a: "assign_spot cfg s lot start end =
           List.find (spot_free (confirmed_triples s lot) start end) [1 .. LOT_CAPACITY cfg]" for s
    by (simp add: assign_spot_def ok)
  have "\<not> half_open_overlap start end end e'" "\<not> half_open_overlap start end s' start"
    by (simp_all add: half_open_overlap_def dt_lt_def)
  moreover have "(\<forall>s e. (k, s, e) \<notin> confirmed_triples st lot)
        \<longrightarrow> spot_free (confirmed_triples st lot) start end k"
    by (auto simp: spot_free_def)
  ultimately show ?thesis
    unfolding a find_upto_Some find_upto_None by simp
qed

theorem assign_spot_first_fit_witness:
  "assign_spot (default_config\<lparr>LOT_CAPACITY := 2\<rparr>)
     [booking ''RapidPark-A'' 1 (datetime_of 2024 1 1 10 0) (datetime_of 2024 1 1 12 0)]
     ''RapidPark-A'' (datetime_of 2024 1 1 11 0) (datetime_of 2024 1 1 13 0) = Some 2
   \<and> spot_free
        (confirmed_triples
           [booking ''RapidPark-A'' 1 (datetime_of 2024 1 1 10 0) (datetime_of 2024 1 1 12 0)]
           ''RapidPark-A'')
        (datetime_of 2024 1 1 11 0) (datetime_of 2024 1 1 13 0) 2
   \<and> \<not> spot_free
        (confirmed_triples
           [booking ''RapidPark-A'' 1 (datetime_of 2024 1 1 10 0) (datetime_of 2024 1 1 12 0)]
           ''RapidPark-A'')
        (datetime_of 2024 1 1 11 0) (datetime_of 2024 1 1 13 0) 1"
proof -
  have e: "assign_spot (default_config\<lparr>LOT_CAPACITY := 2\<rparr>)
     [booking ''RapidPark-A'' 1 (datetime_of 2024 1 1 10 0) (datetime_of 2024 1 1 12 0)]
     ''RapidPark-A'' (datetime_of 2024 1 1 11 0) (datetime_of 2024 1 1 13 0) = Some 2"
    by code_simp
  from assign_spot_first_fit
    [of "default_config\<lparr>LOT_CAPACITY := 2\<rparr>"
        "[booking ''RapidPark-A'' 1 (datetime_of 2024 1 1 10 0) (datetime_of 2024 1 1 12 0)]"
        "''RapidPark-A''" "datetime_of 2024 1 1 11 0" "datetime_of 2024 1 1 13 0" 2] e
  show ?thesis by auto
qed

section \<open>Facts about strings and formatting\<close>

lemma replace_space: "replace_ne '' '' [] v = filter (\<lambda>c. c \<noteq> CHR '' '') v"
  by (induction v) (auto simp: drop_Cons')

lemma dec_small: "n < 10 \<Longrightarrow> dec n = [digit_char n]"
  by simp

lemma dec_two: "10 \<le> n \<Longrightarrow> n < 100 \<Longrightarrow> dec n = [digit_char (n div 10), digit_char (n mod 10)]"
  by (subst dec.simps) (simp add: dec_small)

lemma digit_char_0: "digit_char 0 = CHR ''0''"
  by code_simp

lemma pad2_two_digits: "0 \<le> n \<Longrightarrow> n < 100 \<Longrightarrow> pad2 n = two_digits n"
proof -
  assume a: "0 \<le> n" "n < 100"
  show ?thesis
  proof (cases "n < 10")
    case True
    with a have "nat n < 10" "n div 10 = 0" "n mod 10 = n" by auto
    then show ?thesis
      by (simp add: pad2_def two_digits_def zfill_def dec_small digit_char_0 del: dec.simps)
  next
    case False
    with a have "10 \<le> nat n" "nat n < 100" by auto
    then have "dec (nat n) = [digit_char (nat n div 10), digit_char (nat n mod 10)]"
      by (rule dec_two)
    moreover from a have "nat n div 10 = nat (n div 10)" "nat n mod 10 = nat (n mod 10)"
      by (simp_all add: nat_div_distrib nat_mod_distrib)
    ultimately show ?thesis
      by (simp add: pad2_def two_digits_def zfill_def del: dec.simps)
  qed
qed

lemma strftime_mdHM:
  "strftime ''%m%d%H%M'' w = pad2 (month w) @ pad2 (day w) @ pad2 (hour w) @ pad2 (minute w)"
  by (simp add: directive_def)

lemma digit_char_inj: "a < 10 \<Longrightarrow> b < 10 \<Longrightarrow> digit_char a = digit_char b \<Longrightarrow> a = b"
proof -
  assume a: "a < 10" "b < 10" "digit_char a = digit_char b"
  then have "(of_char (char_of (48 + a)) :: nat) = of_char (char_of (48 + b))"
    by (simp add: digit_char_def)
  with a show ?thesis by (simp add: of_char_of)
qed

lemma two_digits_inj:
  "0 \<le> a \<Longrightarrow> a < 100 \<Longrightarrow> 0 \<le> b \<Longrightarrow> b < 100 \<Longrightarrow> two_digits a = two_digits b \<Longrightarrow> a = b"
proof -
  assume a: "0 \<le> a" "a < 100" "0 \<le> b" "b < 100" "two_digits a = two_digits b"
  then have "nat (a div 10) < 10" "nat (b div 10) < 10" "nat (a mod 10) < 10" "nat (b mod 10) < 10"
    by auto
  with a(5) have "nat (a div 10) = nat (b div 10)" "nat (a mod 10) = nat (b mod 10)"
    by (auto simp: two_digits_def dest: digit_char_inj)
  moreover from a have "0 \<le> a div 10" "0 \<le> b div 10" "0 \<le> a mod 10" "0 \<le> b mod 10"
    by simp_all
  ultimately have "a div 10 = b div 10" "a mod 10 = b mod 10"
    by (simp_all add: eq_nat_nat_iff)
  then have "10 * (a div 10) + a mod 10 = 10 * (b div 10) + b mod 10" by simp
  then show ?thesis by (simp only: mult_div_mod_eq)
qed

lemma days_in_month_le: "1 \<le> m \<Longrightarrow> m \<le> 12 \<Longrightarrow> days_in_month y m \<le> 31"
proof -
  assume "1 \<le> m" "m \<le> 12"
  then have "m \<in> {1, 2, 3, 4, 5, 6, 7, 8, 9, 10, 11, 12}" by simp presburger
  then show ?thesis
    by (auto simp: days_in_month_def DAYS_IN_MONTH_def)
qed

lemma valid_datetime_fields:
  assumes "valid_datetime w"
  shows "0 \<le> month w" "month w < 100" "0 \<le> day w" "day w < 100"
    "0 \<le> hour w" "hour w < 100" "0 \<le> minute w" "minute w < 100"
proof -
  from assms have m: "1 \<le> month w" "month w \<le> 12" and d: "1 \<le> day w"
    "day w \<le> days_in_month (year w) (month w)"
    and r: "0 \<le> hour w" "hour w \<le> 23" "0 \<le> minute w" "minute w \<le> 59"
    by (simp_all add: valid_datetime_def)
  from m have "days_in_month (year w) (month w) \<le> 31" by (rule days_in_month_le)
  with m d r show "0 \<le> month w" "month w < 100" "0 \<le> day w" "day w < 100"
    "0 \<le> hour w" "hour w < 100" "0 \<le> minute w" "minute w < 100"
    by simp_all
qed

lemma strftime_MMDDHHmm: "valid_datetime w \<Longrightarrow> strftime ''%m%d%H%M'' w = MMDDHHmm w"
  by (simp add: directive_def MMDDHHmm_def pad2_two_digits valid_datetime_fields)

lemma generate_code_eq:
  "valid_datetime w \<Longrightarrow>
     generate_code v w = ''RP-'' @ normalized_vehicle_id v @ ''-'' @ MMDDHHmm w"
  by (simp add: generate_code_def normalized_vehicle_id_def upper_def replace_def replace_space
      strftime_MMDDHHmm del: strftime.simps)

lemma length_MMDDHHmm: "length (MMDDHHmm w) = 8"
  by (simp add: MMDDHHmm_def two_digits_def)

lemma MMDDHHmm_inj:
  assumes "valid_datetime a" "valid_datetime b" "MMDDHHmm a = MMDDHHmm b"
  shows "month a = month b \<and> day a = day b \<and> hour a = hour b \<and> minute a = minute b"
proof -
  from assms(3) have "two_digits (month a) = two_digits (month b)"
    "two_digits (day a) = two_digits (day b)" "two_digits (hour a) = two_digits (hour b)"
    "two_digits (minute a) = two_digits (minute b)"
    by (simp_all add: MMDDHHmm_def two_digits_def)
  then show ?thesis
    using valid_datetime_fields[OF assms(1)] valid_datetime_fields[OF assms(2)]
    by (blast intro: two_digits_inj)
qed

section \<open>Facts about pricing\<close>






section \<open>Facts about confirmation codes\<close>

text \<open>
  C6. The confirmation code is the string RP- followed by the vehicle id with spaces
  removed and in upper case, a hyphen, and the month, day, hour and minute of the start
  instant with two digits each; it is a function of the vehicle id and the start instant.
\<close>

theorem generate_code_format:
  "valid_datetime w \<Longrightarrow>
     generate_code v w =
       ''RP-'' @ map upper_char (filter (\<lambda>c. c \<noteq> CHR '' '') v) @ ''-''
         @ two_digits (month w) @ two_digits (day w) @ two_digits (hour w)
         @ two_digits (minute w)"
  by (simp add: generate_code_eq normalized_vehicle_id_def MMDDHHmm_def)

theorem generate_code_format_witness:
  "valid_datetime (datetime_of 2024 3 9 7 5)
   \<and> generate_code ''ka 01 ab 1234'' (datetime_of 2024 3 9 7 5) = ''RP-KA01AB1234-03090705''"
proof -
  have v: "valid_datetime (datetime_of 2024 3 9 7 5)" by code_simp
  have "''RP-'' @ map upper_char (filter (\<lambda>c. c \<noteq> CHR '' '') ''ka 01 ab 1234'') @ ''-''
         @ two_digits (month (datetime_of 2024 3 9 7 5)) @ two_digits (day (datetime_of 2024 3 9 7 5))
         @ two_digits (hour (datetime_of 2024 3 9 7 5))
         @ two_digits (minute (datetime_of 2024 3 9 7 5)) = ''RP-KA01AB1234-03090705''"
    by code_simp
  with generate_code_format[OF v, of "''ka 01 ab 1234''"] v show ?thesis by simp
qed

text \<open>
  C7, as stated, fails: two start instants that differ only in the year get the same code.
\<close>

theorem generate_code_year_collision:
  "normalized_vehicle_id ''ABC-1234'' = normalized_vehicle_id ''ABC-1234''
   \<and> datetime_of 2024 1 1 10 0 \<noteq> datetime_of 2025 1 1 10 0
   \<and> generate_code ''ABC-1234'' (datetime_of 2024 1 1 10 0)
       = generate_code ''ABC-1234'' (datetime_of 2025 1 1 10 0)"
proof -
  have "generate_code ''ABC-1234'' (datetime_of 2024 1 1 10 0)
       = generate_code ''ABC-1234'' (datetime_of 2025 1 1 10 0)"
    by code_simp
  then show ?thesis by (simp add: datetime_of_def)
qed

text \<open>
  C7, amended. Two codes are equal exactly when the normalized vehicle ids are equal and
  the start instants agree in month, day, hour and minute: the generator is injective on
  the normalized vehicle id and on these four fields, not on the whole start instant.
\<close>

theorem generate_code_injective_on_fields:
  assumes "valid_datetime w1" "valid_datetime w2"
  shows "generate_code v1 w1 = generate_code v2 w2 \<longleftrightarrow>
     normalized_vehicle_id v1 = normalized_vehicle_id v2
     \<and> month w1 = month w2 \<and> day w1 = day w2 \<and> hour w1 = hour w2 \<and> minute w1 = minute w2"
proof
  assume "generate_code v1 w1 = generate_code v2 w2"
  with assms have "normalized_vehicle_id v1 @ ''-'' @ MMDDHHmm w1
      = normalized_vehicle_id v2 @ ''-'' @ MMDDHHmm w2"
    by (simp add: generate_code_eq)
  then have "(normalized_vehicle_id v1 @ ''-'') @ MMDDHHmm w1
      = (normalized_vehicle_id v2 @ ''-'') @ MMDDHHmm w2"
    by simp
  then have "normalized_vehicle_id v1 @ ''-'' = normalized_vehicle_id v2 @ ''-''
      \<and> MMDDHHmm w1 = MMDDHHmm w2"
    by (subst (asm) append_eq_append_conv) (simp_all add: length_MMDDHHmm)
  with MMDDHHmm_inj[OF assms]
  show "normalized_vehicle_id v1 = normalized_vehicle_id v2
     \<and> month w1 = month w2 \<and> day w1 = day w2 \<and> hour w1 = hour w2 \<and> minute w1 = minute w2"
    by simp
next
  assume "normalized_vehicle_id v1 = normalized_vehicle_id v2
     \<and> month w1 = month w2 \<and> day w1 = day w2 \<and> hour w1 = hour w2 \<and> minute w1 = minute w2"
  with assms show "generate_code v1 w1 = generate_code v2 w2"
    by (simp add: generate_code_eq MMDDHHmm_def)
qed

theorem generate_code_injective_on_fields_witness:
  "valid_datetime (datetime_of 2024 1 1 10 0) \<and> valid_datetime (datetime_of 2024 1 1 10 30)
   \<and> generate_code ''abc 1234'' (datetime_of 2024 1 1 10 0)
       \<noteq> generate_code ''ABC1234'' (datetime_of 2024 1 1 10 30)"
proof -
  have v: "valid_datetime (datetime_of 2024 1 1 10 0)" "valid_datetime (datetime_of 2024 1 1 10 30)"
    by code_simp+
  have "minute (datetime_of 2024 1 1 10 0) \<noteq> minute (datetime_of 2024 1 1 10 30)"
    by (simp add: datetime_of_def)
  with generate_code_injective_on_fields[OF v, of "''abc 1234''" "''ABC1234''"] v
  show ?thesis by simp
qed

section \<open>Facts about reservations and quotes\<close>

lemma assign_spot_find:
  "assign_spot cfg st lot start end =
     List.find (spot_free (confirmed_triples st lot) start end) [1 .. LOT_CAPACITY cfg]"
proof -
  have "spot_ok (taken_by_spot (select_rows st lot)) start end =
        spot_free (confirmed_triples st lot) start end"
    by (rule ext) (simp add: spot_ok_iff_free set_select_rows)
  then show ?thesis by (simp add: assign_spot_def)
qed

lemma assign_spot_None:
  "assign_spot cfg st lot start end = None \<longleftrightarrow>
     (\<forall>k. 1 \<le> k \<and> k \<le> LOT_CAPACITY cfg \<longrightarrow> \<not> spot_free (confirmed_triples st lot) start end k)"
  by (simp add: assign_spot_find find_upto_None)

lemma create_reservation_checks_error:
  "create_reservation_checks ev data = Inl err \<Longrightarrow>
     err = OverflowError \<or> (\<exists>d. err = HTTPException 400 d)"
  by (auto simp: create_reservation_checks_def Let_def split: if_splits option.splits)

text \<open>
  C4. When a reserve request passes the checks of its input but no spot in 1..capacity is
  free for the requested interval, the outcome is the HTTP 409 error and the table is left
  as it was. Every outcome of a failed check is different from it (HTTP 400, or the
  overflow of the date arithmetic), and leaves the table as it was too.
\<close>

theorem create_reservation_capacity_exhausted:
  assumes "create_reservation_checks ev data = Inr (start, end)"
    and "\<forall>k. 1 \<le> k \<and> k \<le> LOT_CAPACITY cfg \<longrightarrow>
           \<not> spot_free (confirmed_triples st (LOT_NAME cfg)) start end k"
  shows "create_reservation cfg ev st data =
           (Inl (HTTPException 409 ''No spots available for the requested time range''), st)
         \<and> (\<forall>err. create_reservation_checks ev data' = Inl err \<longrightarrow>
               create_reservation cfg ev st data' = (Inl err, st)
               \<and> err \<noteq> HTTPException 409 ''No spots available for the requested time range''
               \<and> (err = OverflowError \<or> (\<exists>d. err = HTTPException 400 d)))"
proof -
  from assms(2) have "assign_spot cfg st (LOT_NAME cfg) start end = None"
    by (simp add: assign_spot_None)
  with assms(1) have a: "create_reservation cfg ev st data =
           (Inl (HTTPException 409 ''No spots available for the requested time range''), st)"
    by (simp add: create_reservation_def Let_def)
  have "create_reservation cfg ev st data' = (Inl err, st)
     \<and> err \<noteq> HTTPException 409 ''No spots available for the requested time range''
     \<and> (err = OverflowError \<or> (\<exists>d. err = HTTPException 400 d))"
    if "create_reservation_checks ev data' = Inl err" for err
    using that create_reservation_checks_error[OF that]
    by (auto simp: create_reservation_def)
  with a show ?thesis by blast
qed

theorem create_reservation_capacity_exhausted_witness:
  "create_reservation_checks example_env
       (ReservationCreate.truncate (example_reserve None (Some 2) None))
     = Inr (datetime_of 2024 1 1 10 0, datetime_of 2024 1 1 12 0)
   \<and> create_reservation (default_config\<lparr>LOT_CAPACITY := 1\<rparr>) example_env
       [booking ''RapidPark-A'' 1 (datetime_of 2024 1 1 9 0) (datetime_of 2024 1 1 11 0)]
       (ReservationCreate.truncate (example_reserve None (Some 2) None))
     = (Inl (HTTPException 409 ''No spots available for the requested time range''),
        [booking ''RapidPark-A'' 1 (datetime_of 2024 1 1 9 0) (datetime_of 2024 1 1 11 0)])"
proof -
  have c: "create_reservation_checks example_env
       (ReservationCreate.truncate (example_reserve None (Some 2) None))
     = Inr (datetime_of 2024 1 1 10 0, datetime_of 2024 1 1 12 0)"
    by code_simp
  have "assign_spot (default_config\<lparr>LOT_CAPACITY := 1\<rparr>)
       [booking ''RapidPark-A'' 1 (datetime_of 2024 1 1 9 0) (datetime_of 2024 1 1 11 0)]
       (LOT_NAME (default_config\<lparr>LOT_CAPACITY := 1\<rparr>))
       (datetime_of 2024 1 1 10 0) (datetime_of 2024 1 1 12 0) = None"
    by code_simp
  then have h: "\<forall>k. 1 \<le> k \<and> k \<le> LOT_CAPACITY (default_config\<lparr>LOT_CAPACITY := 1\<rparr>) \<longrightarrow>
      \<not> spot_free
          (confirmed_triples
             [booking ''RapidPark-A'' 1 (datetime_of 2024 1 1 9 0) (datetime_of 2024 1 1 11 0)]
             (LOT_NAME (default_config\<lparr>LOT_CAPACITY := 1\<rparr>)))
          (datetime_of 2024 1 1 10 0) (datetime_of 2024 1 1 12 0) k"
    by (simp only: assign_spot_None)
  from create_reservation_capacity_exhausted[OF c h] c show ?thesis by blast
qed













section \<open>Facts about the arrival time\<close>









end
